theory Spec2Isabelle
  imports Complex_Main
begin

section \<open>Numbers, times and errors\<close>

text \<open>
  The grain scheduler is the class \<open>GrainPlayer\<close> of
  \<open>Tone/source/buffer/GrainPlayer.ts\<close>. Its numbers are modelled as reals: rounding,
  \<open>NaN\<close> and the infinities of JavaScript numbers are outside the model, so every
  statement that rests on the value of a quotient assumes the divisor is not zero.

  A \<open>Time\<close> value is a number of seconds or a value in one of the symbolic encodings
  (a non-empty string such as "0" or "4n", or an object); the encodings are not parsed,
  \<open>Notation x\<close> stands for any such value that resolves to \<open>x\<close> seconds. An optional
  argument is an \<open>option\<close>, \<open>None\<close> being \<open>undefined\<close>. The setters are modelled on
  numbers of seconds. A name the source writes with a leading underscore carries the
  prefix \<open>p_\<close> here. Calls that register for later (a grain's
  start and stop, a stop of the clock) are recorded where they are made; what the clock
  and the grains call back later (a tick, the stop event, a completion notification) is a
  function of its own, applied by whoever delivers it. The signal comparator of
  \<open>Tone/signal/GreaterThan.ts\<close> wires audio nodes together and is not modelled.
\<close>

type_synonym Seconds = real

datatype TimeValue = Number real | Notation real

type_synonym Time = "TimeValue option"

text \<open>
  The truthiness of JavaScript, which \<open>if (duration)\<close> tests: \<open>undefined\<close> and the
  number 0 are falsy, every other number, every non-empty string and every object is
  truthy.
\<close>

definition truthy :: "Time \<Rightarrow> bool" where
  "truthy v = (case v of None \<Rightarrow> False | Some (Number x) \<Rightarrow> x \<noteq> 0 | Some (Notation x) \<Rightarrow> True)"

datatype error = RangeError

text \<open>
  Modelled from the spec: \<open>assertRange\<close> of \<open>core/util/Debug\<close>, which is not part of
  this file. It asserts that the value lies in the range that starts at the bound: the
  playback rate has the "minimum 0.001" and the range error is for a playback rate "below
  the 0.001 floor", so the bound itself is in range.
\<close>

definition assertRange :: "real \<Rightarrow> real \<Rightarrow> error + unit" where
  "assertRange val gte = (if gte \<le> val then Inr () else Inl RangeError)"

text \<open>
  Modelled from the spec: \<open>defaultArg\<close> of \<open>core/util/Defaults\<close>, which gives an
  argument its default ("offset (default 0)"): the fallback stands in for \<open>undefined\<close>.
\<close>

definition defaultArg :: "'a option \<Rightarrow> 'a \<Rightarrow> 'a" where
  "defaultArg given fallback = (case given of None \<Rightarrow> fallback | Some v \<Rightarrow> v)"

text \<open>
  Modelled from the spec: \<open>intervalToFrequencyRatio\<close> of \<open>core/type/Conversions\<close>, the
  equal-tempered ratio of an interval in semitones, so that cents become
  \<open>2 ^ (cents / 1200)\<close>.
\<close>

definition intervalToFrequencyRatio :: "real \<Rightarrow> real" where
  "intervalToFrequencyRatio interval = 2 powr (interval / 12)"

section \<open>Timelines\<close>

text \<open>
  Modelled from the spec: the time-stamped values kept by the clock and by the base
  class (a frequency that can be set "at a time", a state that is read "at a time").
  A timeline is the log of its events, newest first. The event in force at time \<open>q\<close>
  is the one with the greatest time not after \<open>q\<close>; among events of equal time the one
  logged last wins.
\<close>

type_synonym 'a Timeline = "(Seconds \<times> 'a) list"

fun Timeline_get :: "'a Timeline \<Rightarrow> Seconds \<Rightarrow> (Seconds \<times> 'a) option" where
  "Timeline_get [] q = None"
| "Timeline_get (e # es) q =
     (case Timeline_get es q of
        None \<Rightarrow> (if fst e \<le> q then Some e else None)
      | Some e' \<Rightarrow> (if fst e \<le> q \<and> fst e' \<le> fst e then Some e else Some e'))"

text \<open>Forgetting what a timeline holds at or after a time.\<close>

definition Timeline_cancel :: "'a Timeline \<Rightarrow> Seconds \<Rightarrow> 'a Timeline" where
  "Timeline_cancel es t = filter (\<lambda>e. fst e < t) es"

datatype BasicPlaybackState = started | stopped

definition getStateAtTime :: "BasicPlaybackState Timeline \<Rightarrow> Seconds \<Rightarrow> BasicPlaybackState" where
  "getStateAtTime tln q = (case Timeline_get tln q of None \<Rightarrow> stopped | Some e \<Rightarrow> snd e)"

record Param =
  initialValue :: real
  events :: "real Timeline"

definition getValueAtTime :: "Param \<Rightarrow> Seconds \<Rightarrow> real" where
  "getValueAtTime p q = (case Timeline_get (events p) q of None \<Rightarrow> initialValue p | Some e \<Rightarrow> snd e)"

definition setValueAtTime :: "Param \<Rightarrow> real \<Rightarrow> Seconds \<Rightarrow> Param" where
  "setValueAtTime p v t = p\<lparr>events := (t, v) # events p\<rparr>"

section \<open>The periodic clock\<close>

text \<open>
  Modelled from the spec: the \<open>Clock\<close> of \<open>core/clock/Clock\<close>, which is not part of
  this file. It "accepts a variable tick frequency", is started at a time with an initial
  tick count and stopped at a time, "invokes a callback once per tick with the tick's
  absolute time" and reports the "tick count at an arbitrary past/future time". The record
  keeps the frequency, the log of its starts and stops, and the time and the tick count of
  its last start. Stopping at a time "cancels all future ticks": what was scheduled at or
  after that time is dropped, and the clock is stopped from then on.

  The tick count at a time is the count given at the last start plus the ticks elapsed
  since: the frequency is constant between the times at which it was set, so the elapsed
  ticks are summed piece by piece over the set points that lie in between.
\<close>

record Clock =
  frequency :: Param
  clock_state :: "BasicPlaybackState Timeline"
  started_time :: Seconds
  started_ticks :: real

definition Clock_start :: "Clock \<Rightarrow> Seconds \<Rightarrow> real \<Rightarrow> Clock" where
  "Clock_start c time offset =
     c\<lparr>clock_state := (time, started) # clock_state c, started_time := time, started_ticks := offset\<rparr>"

definition Clock_stop :: "Clock \<Rightarrow> Seconds \<Rightarrow> Clock" where
  "Clock_stop c time = c\<lparr>clock_state := (time, stopped) # Timeline_cancel (clock_state c) time\<rparr>"

fun ticksOver :: "Param \<Rightarrow> Seconds \<Rightarrow> Seconds list \<Rightarrow> Seconds \<Rightarrow> real" where
  "ticksOver p a [] b = getValueAtTime p a * (b - a)"
| "ticksOver p a (t # ts) b = getValueAtTime p a * (t - a) + ticksOver p t ts b"

definition getTicksAtTime :: "Clock \<Rightarrow> Seconds \<Rightarrow> real" where
  "getTicksAtTime c time =
     started_ticks c
       + ticksOver (frequency c) (started_time c)
           (sort (filter (\<lambda>t. started_time c < t \<and> t < time) (map fst (events (frequency c)))))
           time"

section \<open>Grains\<close>

text \<open>
  Modelled from the spec: the \<open>ToneBufferSource\<close> of \<open>./ToneBufferSource\<close>, the one-shot
  grain. Its \<open>start\<close> and \<open>stop\<close> are scheduling operations: they register what the
  grain was told and render nothing synchronously; the completion notification comes
  later, from outside. \<open>sid\<close> is the identity of the object, which is what \<open>indexOf\<close>
  compares.
\<close>

record ToneBufferSource =
  sid :: nat
  fadeIn :: Seconds
  fadeOut :: Seconds
  src_loop :: bool
  src_loopStart :: Seconds
  src_loopEnd :: Seconds
  src_playbackRate :: real
  connected :: bool
  started_at :: "(Seconds \<times> Seconds) option"
  stop_times :: "Seconds list"

definition source_start :: "ToneBufferSource \<Rightarrow> Seconds \<Rightarrow> Seconds \<Rightarrow> ToneBufferSource" where
  "source_start g time offset = g\<lparr>started_at := Some (time, offset)\<rparr>"

definition source_stop :: "ToneBufferSource \<Rightarrow> Seconds \<Rightarrow> ToneBufferSource" where
  "source_stop g time = g\<lparr>stop_times := stop_times g @ [time]\<rparr>"

section \<open>The grain player\<close>

text \<open>
  The fields of \<open>GrainPlayer\<close>, with what it uses of its collaborators: the duration and
  the direction of its buffer, the state timeline and the stop callback of the base class
  \<open>Source\<close> (the callback is counted, not run), the current time of the audio context,
  and the next free object identity.
\<close>

record GrainPlayer =
  buffer_duration :: Seconds
  buffer_reverse :: bool
  p_clock :: Clock
  p_loopStart :: Seconds
  p_loopEnd :: Seconds
  p_activeSources :: "ToneBufferSource list"
  p_playbackRate :: real
  p_grainSize :: Seconds
  p_overlap :: Seconds
  detune :: real
  loop :: bool
  p_state :: "BasicPlaybackState Timeline"
  onstop_calls :: nat
  ctx_now :: Seconds
  next_sid :: nat

text \<open>
  Modelled from the spec: \<open>toSeconds\<close> and \<open>now\<close> of the base class. A number of
  seconds resolves to itself, an encoded value to the seconds it stands for, and
  \<open>undefined\<close> to the current time.
\<close>

definition toSeconds :: "GrainPlayer \<Rightarrow> Time \<Rightarrow> Seconds" where
  "toSeconds s time =
     (case time of None \<Rightarrow> ctx_now s | Some (Number x) \<Rightarrow> x | Some (Notation x) \<Rightarrow> x)"

subsection \<open>Parameters\<close>

definition set_grainSize :: "GrainPlayer \<Rightarrow> Seconds \<Rightarrow> GrainPlayer" where
  "set_grainSize s size1 =
     (let s1 = s\<lparr>p_grainSize := toSeconds s (Some (Number size1))\<rparr>
      in s1\<lparr>p_clock := (p_clock s1)\<lparr>frequency :=
            setValueAtTime (frequency (p_clock s1)) (p_playbackRate s1 / p_grainSize s1) (ctx_now s1)\<rparr>\<rparr>)"

text \<open>
  A setter that can throw returns the error it raised, if any, with the player as the
  throw left it.
\<close>

definition set_playbackRate :: "GrainPlayer \<Rightarrow> real \<Rightarrow> error option \<times> GrainPlayer" where
  "set_playbackRate s rate =
     (case assertRange rate (1 / 1000) of
        Inl e \<Rightarrow> (Some e, s)
      | Inr u \<Rightarrow> (None, set_grainSize (s\<lparr>p_playbackRate := rate\<rparr>) (p_grainSize s)))"

definition get_playbackRate :: "GrainPlayer \<Rightarrow> real" where
  "get_playbackRate s = p_playbackRate s"

definition set_overlap :: "GrainPlayer \<Rightarrow> Seconds \<Rightarrow> GrainPlayer" where
  "set_overlap s time = s\<lparr>p_overlap := toSeconds s (Some (Number time))\<rparr>"

definition set_loopStart :: "GrainPlayer \<Rightarrow> Seconds \<Rightarrow> GrainPlayer" where
  "set_loopStart s time = s\<lparr>p_loopStart := toSeconds s (Some (Number time))\<rparr>"

definition set_loopEnd :: "GrainPlayer \<Rightarrow> Seconds \<Rightarrow> GrainPlayer" where
  "set_loopEnd s time = s\<lparr>p_loopEnd := toSeconds s (Some (Number time))\<rparr>"

definition set_reverse :: "GrainPlayer \<Rightarrow> bool \<Rightarrow> GrainPlayer" where
  "set_reverse s rev1 = s\<lparr>buffer_reverse := rev1\<rparr>"

subsection \<open>Stop, start and restart\<close>

text \<open>The player's own stop hands the time to the clock, which resolves it.\<close>

definition p_stop :: "GrainPlayer \<Rightarrow> Time \<Rightarrow> GrainPlayer" where
  "p_stop s time = s\<lparr>p_clock := Clock_stop (p_clock s) (toSeconds s time)\<rparr>"

text \<open>
  Modelled from the spec: the public \<open>stop\<close> of the base class \<open>Source\<close>, which is not
  part of this file. It "halts the Periodic Clock at time", through the player's own
  \<open>_stop\<close>, and makes the transition to stopped: the player is stopped from that time on,
  and what its state timeline held at or after that time is dropped. On a player that is
  already stopped from that time on this changes nothing that can be read back.
\<close>

definition stop :: "GrainPlayer \<Rightarrow> Time \<Rightarrow> GrainPlayer" where
  "stop s time =
     (let t = toSeconds s time
      in (p_stop s (Some (Number t)))\<lparr>p_state := (t, stopped) # Timeline_cancel (p_state s) t\<rparr>)"

definition p_start :: "GrainPlayer \<Rightarrow> Time \<Rightarrow> Time \<Rightarrow> Time \<Rightarrow> GrainPlayer" where
  "p_start s time offset duration =
     (let offset1 = defaultArg offset (Number 0);
          offset2 = toSeconds s (Some offset1);
          time1 = toSeconds s time;
          grainSize = 1 / getValueAtTime (frequency (p_clock s)) time1;
          s1 = s\<lparr>p_clock := Clock_start (p_clock s) time1 (offset2 / grainSize)\<rparr>
      in if truthy duration
         then stop s1 (Some (Number (time1 + toSeconds s1 duration)))
         else s1)"

text \<open>
  Modelled from the spec: the public \<open>start\<close> of the base class \<open>Source\<close>. It is "valid
  only from stopped" and a no-op otherwise; it records the transition to started and
  runs the player's own \<open>_start\<close>.
\<close>

definition start :: "GrainPlayer \<Rightarrow> Time \<Rightarrow> Time \<Rightarrow> Time \<Rightarrow> GrainPlayer" where
  "start s time offset duration =
     (let t = toSeconds s time
      in if getStateAtTime (p_state s) t = stopped
         then p_start (s\<lparr>p_state := (t, started) # p_state s\<rparr>) (Some (Number t)) offset duration
         else s)"

definition restart :: "GrainPlayer \<Rightarrow> Time \<Rightarrow> Time \<Rightarrow> Time \<Rightarrow> GrainPlayer" where
  "restart s time offset duration =
     (let time1 = toSeconds s time
      in if getStateAtTime (p_state s) time1 = started
         then p_start (p_stop s (Some (Number time1))) (Some (Number time1)) offset duration
         else s)"

subsection \<open>The stop handler\<close>

definition p_onstop :: "GrainPlayer \<Rightarrow> Seconds \<Rightarrow> GrainPlayer" where
  "p_onstop s time =
     s\<lparr>p_activeSources := map (\<lambda>source. source_stop (source\<lparr>fadeOut := 0\<rparr>) time) (p_activeSources s),
       onstop_calls := Suc (onstop_calls s)\<rparr>"

subsection \<open>The tick\<close>

text \<open>
  The offset the tick computes from the tick index and the frequency at its time. The
  debug log of the offset has no effect and is left out. The new grain shares the
  context and the buffer of the player; the record keeps the options that differ from
  grain to grain and what the grain is told afterwards.
\<close>

definition tick_offset :: "GrainPlayer \<Rightarrow> Seconds \<Rightarrow> real" where
  "tick_offset s time =
     getTicksAtTime (p_clock s) time * (1 / getValueAtTime (frequency (p_clock s)) time)"

definition new_source :: "GrainPlayer \<Rightarrow> Seconds \<Rightarrow> ToneBufferSource" where
  "new_source s fadeIn1 =
     \<lparr>sid = next_sid s, fadeIn = fadeIn1, fadeOut = p_overlap s, src_loop = loop s,
      src_loopStart = p_loopStart s, src_loopEnd = p_loopEnd s,
      src_playbackRate = intervalToFrequencyRatio (detune s / 100),
      connected = True, started_at = None, stop_times = []\<rparr>"

definition p_tick :: "GrainPlayer \<Rightarrow> Seconds \<Rightarrow> GrainPlayer" where
  "p_tick s time =
     (let ticks1 = getTicksAtTime (p_clock s) time;
          grainSize = 1 / getValueAtTime (frequency (p_clock s)) time;
          offset = ticks1 * grainSize
      in if \<not> loop s \<and> offset > buffer_duration s then stop s (Some (Number time))
         else
           let fadeIn1 = (if offset < p_overlap s then 0 else p_overlap s);
               source = new_source s fadeIn1;
               source1 = source_start source time (p_grainSize s * ticks1);
               source2 = source_stop source1 (time + p_grainSize s / get_playbackRate s)
           in s\<lparr>p_activeSources := p_activeSources s @ [source2], next_sid := Suc (next_sid s)\<rparr>)"

text \<open>
  The completion handler that the tick registers on the grain it spawned. \<open>indexOf\<close>
  finds the first position holding that object, or \<open>-1\<close>; \<open>splice\<close> removes one element
  there.
\<close>

fun indexOf_from :: "ToneBufferSource list \<Rightarrow> nat \<Rightarrow> int \<Rightarrow> int" where
  "indexOf_from [] x i = - 1"
| "indexOf_from (g # gs) x i = (if sid g = x then i else indexOf_from gs x (i + 1))"

definition indexOf :: "ToneBufferSource list \<Rightarrow> nat \<Rightarrow> int" where
  "indexOf gs x = indexOf_from gs x 0"

definition splice1 :: "'a list \<Rightarrow> int \<Rightarrow> 'a list" where
  "splice1 xs index = take (nat index) xs @ drop (Suc (nat index)) xs"

definition onended :: "GrainPlayer \<Rightarrow> nat \<Rightarrow> GrainPlayer" where
  "onended s source =
     (let index = indexOf (p_activeSources s) source
      in if index \<noteq> - 1 then s\<lparr>p_activeSources := splice1 (p_activeSources s) index\<rparr> else s)"

text \<open>
  Modelled from the spec: how the clock delivers a tick. A tick at a time is handed to
  the callback only while the clock is started at that time ("stopping the scheduler
  cancels all future ticks").
\<close>

definition Clock_tick :: "GrainPlayer \<Rightarrow> Seconds \<Rightarrow> GrainPlayer" where
  "Clock_tick s time =
     (if getStateAtTime (clock_state (p_clock s)) time = started then p_tick s time else s)"

subsection \<open>Construction\<close>

record GrainPlayerOptions =
  opt_reverse :: bool
  opt_overlap :: Seconds
  opt_grainSize :: Seconds
  opt_playbackRate :: real
  opt_detune :: real
  opt_loop :: bool
  opt_loopStart :: Seconds
  opt_loopEnd :: Seconds

definition getDefaults :: GrainPlayerOptions where
  "getDefaults =
     \<lparr>opt_reverse = False, opt_overlap = 1 / 10, opt_grainSize = 2 / 10, opt_playbackRate = 1,
      opt_detune = 0, opt_loop = False, opt_loopStart = 0, opt_loopEnd = 0\<rparr>"

text \<open>
  The constructor, for a buffer that is already decoded and has the given duration, at
  the given context time. The fields are assigned first and the setters run afterwards,
  in the order of the source; the playback-rate setter can throw.
\<close>

definition GrainPlayer_fields :: "GrainPlayerOptions \<Rightarrow> Seconds \<Rightarrow> Seconds \<Rightarrow> GrainPlayer" where
  "GrainPlayer_fields options now1 duration1 =
     \<lparr>buffer_duration = duration1, buffer_reverse = opt_reverse options,
      p_clock = \<lparr>frequency = \<lparr>initialValue = 1 / opt_grainSize options, events = []\<rparr>,
                 clock_state = [], started_time = 0, started_ticks = 0\<rparr>,
      p_loopStart = 0, p_loopEnd = 0, p_activeSources = [],
      p_playbackRate = opt_playbackRate options, p_grainSize = opt_grainSize options,
      p_overlap = opt_overlap options, detune = opt_detune options, loop = False,
      p_state = [], onstop_calls = 0, ctx_now = now1, next_sid = 0\<rparr>"

definition GrainPlayer_new :: "GrainPlayerOptions \<Rightarrow> Seconds \<Rightarrow> Seconds \<Rightarrow> error + GrainPlayer" where
  "GrainPlayer_new options now1 duration1 =
     (let s0 = GrainPlayer_fields options now1 duration1;
          s1 = set_overlap s0 (opt_overlap options);
          s2 = s1\<lparr>loop := opt_loop options\<rparr>
      in case set_playbackRate s2 (opt_playbackRate options) of
           (Some e, s3) \<Rightarrow> Inl e
         | (None, s3) \<Rightarrow>
             (let s4 = set_grainSize s3 (opt_grainSize options);
                  s5 = set_loopStart s4 (opt_loopStart options);
                  s6 = set_loopEnd s5 (opt_loopEnd options)
              in Inr (set_reverse s6 (opt_reverse options))))"

subsection \<open>The start as the specification words it\<close>

text \<open>
  The specification's account of the start, kept apart from the source's: the offset
  defaults to 0, the grain duration is the reciprocal of the frequency at the time, the
  clock starts at the time with \<open>offset / grainDuration\<close> ticks, and a stop is
  scheduled at \<open>time + duration\<close> whenever a duration is supplied.
\<close>

definition p_start_spec :: "GrainPlayer \<Rightarrow> Time \<Rightarrow> Time \<Rightarrow> Time \<Rightarrow> GrainPlayer" where
  "p_start_spec s time offset duration =
     (let t = toSeconds s time;
          off = (case offset of None \<Rightarrow> 0 | Some x \<Rightarrow> toSeconds s (Some x));
          grainDuration = 1 / getValueAtTime (frequency (p_clock s)) t;
          s1 = s\<lparr>p_clock := Clock_start (p_clock s) t (off / grainDuration)\<rparr>
      in case duration of
           None \<Rightarrow> s1
         | Some d \<Rightarrow> stop s1 (Some (Number (t + toSeconds s (Some d)))))"

section \<open>Example players\<close>

text \<open>
  The player the constructor builds from the default options at context time 0 over a
  buffer of two seconds, and players reached from it: started at time 0 from an offset,
  started with the tick at time 0 delivered, with the ticks at 0 and 0.2 delivered,
  started at time 0 for five seconds, and at the moment the base class has recorded the
  start and hands over to \<open>_start\<close>.
\<close>

definition demo_player :: GrainPlayer where
  "demo_player =
     \<lparr>buffer_duration = 2, buffer_reverse = False,
      p_clock = \<lparr>frequency = \<lparr>initialValue = 5, events = [(0, 5), (0, 5)]\<rparr>,
                 clock_state = [], started_time = 0, started_ticks = 0\<rparr>,
      p_loopStart = 0, p_loopEnd = 0, p_activeSources = [],
      p_playbackRate = 1, p_grainSize = 1 / 5,
      p_overlap = 1 / 10, detune = 0, loop = False,
      p_state = [], onstop_calls = 0, ctx_now = 0, next_sid = 0\<rparr>"

definition demo_playing :: "Seconds \<Rightarrow> GrainPlayer" where
  "demo_playing offset = start demo_player (Some (Number 0)) (Some (Number offset)) None"

definition demo_sounding :: GrainPlayer where
  "demo_sounding = Clock_tick (demo_playing 0) 0"

definition demo_two_grains :: GrainPlayer where
  "demo_two_grains = Clock_tick demo_sounding (1 / 5)"


definition demo_started :: GrainPlayer where
  "demo_started = demo_player\<lparr>p_state := [(0, started)]\<rparr>"

text \<open>
  The well-formedness of the active grains: no object occurs twice, and every identity
  in use lies below the next free one.
\<close>

definition sources_wf :: "GrainPlayer \<Rightarrow> bool" where
  "sources_wf s =
     (distinct (map sid (p_activeSources s)) \<and> list_all (\<lambda>g. sid g < next_sid s) (p_activeSources s))"

section \<open>Unfolding and evaluation\<close>

lemmas player_defs =
  set_overlap_def set_playbackRate_def set_grainSize_def assertRange_def toSeconds_def
  set_loopStart_def set_loopEnd_def set_reverse_def setValueAtTime_def getValueAtTime_def
  getStateAtTime_def Clock_start_def Clock_stop_def getTicksAtTime_def source_start_def
  source_stop_def p_stop_def stop_def p_start_def start_def restart_def p_onstop_def
  truthy_def Timeline_cancel_def
  tick_offset_def new_source_def p_tick_def indexOf_def splice1_def onended_def
  Clock_tick_def defaultArg_def get_playbackRate_def intervalToFrequencyRatio_def

lemma demo_player_constructed: "GrainPlayer_new getDefaults 0 2 = Inr demo_player"
  by (simp add: GrainPlayer_new_def GrainPlayer_fields_def getDefaults_def demo_player_def
      player_defs Let_def)

lemma demo_playing_eq:
  "demo_playing k =
     demo_player\<lparr>p_clock := (p_clock demo_player)\<lparr>clock_state := [(0, started)],
                       started_time := 0, started_ticks := 5 * k\<rparr>,
                 p_state := [(0, started)]\<rparr>"
  by (simp add: demo_playing_def demo_player_def player_defs Let_def)

lemma demo_playing_frequency: "getValueAtTime (frequency (p_clock (demo_playing k))) t = 5"
  by (simp add: demo_playing_eq demo_player_def getValueAtTime_def)

lemma demo_playing_ticks: "getTicksAtTime (p_clock (demo_playing k)) t = 5 * k + 5 * t"
  by (simp add: demo_playing_eq demo_player_def getTicksAtTime_def getValueAtTime_def)

lemma demo_playing_offset: "tick_offset (demo_playing k) t = k + t"
  by (simp add: tick_offset_def demo_playing_ticks demo_playing_frequency)

lemma demo_playing_fields:
  "loop (demo_playing k) = False" "buffer_duration (demo_playing k) = 2"
  "p_activeSources (demo_playing k) = []" "p_overlap (demo_playing k) = 1 / 10"
  "p_grainSize (demo_playing k) = 1 / 5" "p_playbackRate (demo_playing k) = 1"
  "p_state (demo_playing k) = [(0, started)]"
  "clock_state (p_clock (demo_playing k)) = [(0, started)]"
  by (simp_all add: demo_playing_eq demo_player_def)

lemma demo_sounding_sources:
  "p_activeSources demo_sounding =
     [\<lparr>sid = 0, fadeIn = 0, fadeOut = 1 / 10, src_loop = False, src_loopStart = 0,
       src_loopEnd = 0, src_playbackRate = 1, connected = True, started_at = Some (0, 0),
       stop_times = [1 / 5]\<rparr>]"
  by (simp add: demo_sounding_def demo_playing_eq demo_player_def player_defs Let_def)

lemma demo_two_grains_ids: "map sid (p_activeSources demo_two_grains) = [0, 1]"
  by (simp add: demo_two_grains_def demo_sounding_def demo_playing_eq demo_player_def player_defs Let_def)


section \<open>Timelines: the event in force\<close>

lemma Timeline_get_le: "Timeline_get es q = Some e \<Longrightarrow> fst e \<le> q"
  by (induction es arbitrary: e) (auto split: option.splits if_splits)


lemma Timeline_get_newest: "Timeline_get ((t, v) # es) t = Some (t, v)"
  by (auto split: option.splits dest: Timeline_get_le)


lemma getValueAtTime_set: "getValueAtTime (setValueAtTime p v t) t = v"
  by (simp add: getValueAtTime_def setValueAtTime_def Timeline_get_newest del: Timeline_get.simps)




section \<open>The parameter setters\<close>

text \<open>
  C1. For a playback rate above 0.001 and a positive grain size, right after the
  playback-rate setter or the grain-size setter has run, the frequency of the clock read
  at the current time is the stored playback rate divided by the stored grain size: each
  setter stores its value and applies the quotient at the current time.
\<close>

theorem setters_apply_frequency:
  "(1 / 1000 < rate \<and> 0 < p_grainSize s \<longrightarrow>
      fst (set_playbackRate s rate) = None
      \<and> p_playbackRate (snd (set_playbackRate s rate)) = rate
      \<and> p_grainSize (snd (set_playbackRate s rate)) = p_grainSize s
      \<and> getValueAtTime (frequency (p_clock (snd (set_playbackRate s rate)))) (ctx_now s)
          = rate / p_grainSize s)
   \<and> (0 < size1 \<longrightarrow>
      p_grainSize (set_grainSize s size1) = size1
      \<and> p_playbackRate (set_grainSize s size1) = p_playbackRate s
      \<and> getValueAtTime (frequency (p_clock (set_grainSize s size1))) (ctx_now s)
          = p_playbackRate s / size1)"
  by (simp add: set_playbackRate_def set_grainSize_def assertRange_def toSeconds_def
      Let_def getValueAtTime_set)

theorem setters_apply_frequency_witness:
  "(1 / 1000 < (2::real) \<and> 0 < p_grainSize demo_player)
   \<and> getValueAtTime (frequency (p_clock (snd (set_playbackRate demo_player 2)))) 0 = 10
   \<and> (0 < (1 / 2 :: real))
   \<and> getValueAtTime (frequency (p_clock (set_grainSize demo_player (1 / 2)))) 0 = 2"
proof -
  have h: "1 / 1000 < (2::real) \<and> 0 < p_grainSize demo_player"
    by (simp add: demo_player_def)
  have v: "p_grainSize demo_player = 1 / 5" "p_playbackRate demo_player = 1" "ctx_now demo_player = 0"
    by (simp_all add: demo_player_def)
  from setters_apply_frequency [of 2 demo_player "1 / 2"] h
  have "getValueAtTime (frequency (p_clock (snd (set_playbackRate demo_player 2)))) (ctx_now demo_player)
          = 2 / p_grainSize demo_player"
    by blast
  then have a: "getValueAtTime (frequency (p_clock (snd (set_playbackRate demo_player 2)))) 0 = 10"
    by (simp add: v)
  have p: "0 < (1 / 2 :: real)" by simp
  from setters_apply_frequency [of 2 demo_player "1 / 2"] p
  have "getValueAtTime (frequency (p_clock (set_grainSize demo_player (1 / 2)))) (ctx_now demo_player)
          = p_playbackRate demo_player / (1 / 2)"
    by blast
  then have b: "getValueAtTime (frequency (p_clock (set_grainSize demo_player (1 / 2)))) 0 = 2"
    by (simp add: v)
  from h a p b show ?thesis by simp
qed

text \<open>
  The floor itself is accepted: assigning 0.001 to the default player raises nothing and
  stores 0.001.
\<close>

theorem set_playbackRate_at_floor_counterexample:
  "(1 / 1000 :: real) \<le> 1 / 1000
   \<and> set_playbackRate demo_player (1 / 1000) \<noteq> (Some RangeError, demo_player)
   \<and> fst (set_playbackRate demo_player (1 / 1000)) = None
   \<and> p_playbackRate (snd (set_playbackRate demo_player (1 / 1000))) = 1 / 1000"
  by (simp add: set_playbackRate_def set_grainSize_def assertRange_def toSeconds_def Let_def)

text \<open>
  C7, as amended. Assigning the playback-rate setter a value strictly below 0.001 raises
  a range error and leaves the whole player as it was, the stored playback rate and the
  clock with its frequency included; a value of 0.001 or more is accepted and stored. The
  check comes before any assignment, so nothing is changed when it fails.
\<close>

theorem set_playbackRate_floor:
  "(rate < 1 / 1000 \<longrightarrow> set_playbackRate s rate = (Some RangeError, s))
   \<and> (1 / 1000 \<le> rate \<longrightarrow>
        fst (set_playbackRate s rate) = None
        \<and> p_playbackRate (snd (set_playbackRate s rate)) = rate)"
  by (simp add: set_playbackRate_def set_grainSize_def assertRange_def toSeconds_def Let_def)

theorem set_playbackRate_floor_witness:
  "(1 / 2000 :: real) < 1 / 1000
   \<and> set_playbackRate demo_player (1 / 2000) = (Some RangeError, demo_player)
   \<and> (0 :: real) < 1 / 1000
   \<and> set_playbackRate demo_player 0 = (Some RangeError, demo_player)
   \<and> 1 / 1000 \<le> (1 / 1000 :: real)
   \<and> fst (set_playbackRate demo_player (1 / 1000)) = None
   \<and> p_playbackRate (snd (set_playbackRate demo_player (1 / 1000))) = 1 / 1000
   \<and> 1 / 1000 \<le> (2 :: real)
   \<and> fst (set_playbackRate demo_player 2) = None
   \<and> p_playbackRate (snd (set_playbackRate demo_player 2)) = 2"
proof -
  have a: "(1 / 2000 :: real) < 1 / 1000" and b: "(0 :: real) < 1 / 1000"
    and c: "1 / 1000 \<le> (1 / 1000 :: real)" and d: "1 / 1000 \<le> (2 :: real)"
    by simp_all
  from set_playbackRate_floor [of "1 / 2000" demo_player] a
  have a': "set_playbackRate demo_player (1 / 2000) = (Some RangeError, demo_player)" by blast
  from set_playbackRate_floor [of 0 demo_player] b
  have b': "set_playbackRate demo_player 0 = (Some RangeError, demo_player)" by blast
  from set_playbackRate_floor [of "1 / 1000" demo_player] c
  have c': "fst (set_playbackRate demo_player (1 / 1000)) = None"
    "p_playbackRate (snd (set_playbackRate demo_player (1 / 1000))) = 1 / 1000"
    by blast+
  from set_playbackRate_floor [of 2 demo_player] d
  have d': "fst (set_playbackRate demo_player 2) = None"
    "p_playbackRate (snd (set_playbackRate demo_player 2)) = 2"
    by blast+
  from a b c d a' b' c' d' show ?thesis by simp
qed

text \<open>
  The playback rate of a constructed player is at or above the floor, and the setter
  keeps it there, so the quotient by the playback rate in the tick never has a zero
  divisor.
\<close>

lemma constructed_playbackRate:
  "GrainPlayer_new options now1 duration1 = Inr s \<Longrightarrow> 1 / 1000 \<le> p_playbackRate s"
  by (auto simp add: GrainPlayer_new_def GrainPlayer_fields_def set_overlap_def set_playbackRate_def
      set_grainSize_def assertRange_def toSeconds_def set_loopStart_def set_loopEnd_def
      set_reverse_def Let_def split: if_splits)

lemma set_playbackRate_keeps_floor:
  "1 / 1000 \<le> p_playbackRate s \<Longrightarrow> 1 / 1000 \<le> p_playbackRate (snd (set_playbackRate s rate))"
  by (simp add: set_playbackRate_def set_grainSize_def assertRange_def toSeconds_def Let_def)

section \<open>The overlap setter\<close>

text \<open>
  C10. The overlap setter takes any number, negative ones and ones above the grain size
  included, stores it, and changes no other field of the player: putting the old overlap
  back gives the player as it was, so the clock with its frequency, the playback rate,
  the grain size and the active grains are untouched.
\<close>

theorem set_overlap_frame:
  "p_overlap (set_overlap s v) = v
   \<and> (set_overlap s v)\<lparr>p_overlap := p_overlap s\<rparr> = s
   \<and> p_clock (set_overlap s v) = p_clock s
   \<and> p_playbackRate (set_overlap s v) = p_playbackRate s
   \<and> p_grainSize (set_overlap s v) = p_grainSize s
   \<and> p_activeSources (set_overlap s v) = p_activeSources s"
  by (simp add: set_overlap_def toSeconds_def)

section \<open>The tick\<close>


lemma stop_activeSources: "p_activeSources (stop s time) = p_activeSources s"
  by (simp add: stop_def p_stop_def Let_def)

lemma stop_next_sid: "next_sid (stop s time) = next_sid s"
  by (simp add: stop_def p_stop_def Let_def)

lemma p_tick_stops:
  "\<not> loop s \<Longrightarrow> buffer_duration s < tick_offset s t \<Longrightarrow> p_tick s t = stop s (Some (Number t))"
  by (simp add: p_tick_def tick_offset_def Let_def)

lemma p_tick_spawns:
  "\<not> (\<not> loop s \<and> buffer_duration s < tick_offset s t) \<Longrightarrow>
   p_tick s t =
     s\<lparr>p_activeSources := p_activeSources s @
          [source_stop (source_start (new_source s (if tick_offset s t < p_overlap s then 0 else p_overlap s))
              t (p_grainSize s * getTicksAtTime (p_clock s) t))
            (t + p_grainSize s / p_playbackRate s)],
       next_sid := Suc (next_sid s)\<rparr>"
  by (auto simp add: p_tick_def tick_offset_def Let_def get_playbackRate_def)





text \<open>
  C3. A grain spawned by a tick at time \<open>t\<close> with tick index \<open>k\<close> is appended to the
  active grains, is started at \<open>t\<close> reading from the buffer offset \<open>grainSize * k\<close>, and
  has one stop scheduled, at \<open>t + grainSize / playbackRate\<close>.
\<close>

theorem tick_grain_schedule:
  assumes "getValueAtTime (frequency (p_clock s)) t \<noteq> 0"
    and "p_playbackRate s \<noteq> 0"
    and "\<not> (\<not> loop s \<and> buffer_duration s < tick_offset s t)"
  shows "butlast (p_activeSources (p_tick s t)) = p_activeSources s
         \<and> started_at (last (p_activeSources (p_tick s t)))
              = Some (t, p_grainSize s * getTicksAtTime (p_clock s) t)
         \<and> stop_times (last (p_activeSources (p_tick s t)))
              = [t + p_grainSize s / p_playbackRate s]"
  by (simp add: p_tick_spawns [OF assms(3)] source_stop_def source_start_def new_source_def)

theorem tick_grain_schedule_witness:
  "getValueAtTime (frequency (p_clock (demo_playing 1))) (1 / 5) \<noteq> 0
   \<and> p_playbackRate (demo_playing 1) \<noteq> 0
   \<and> \<not> (\<not> loop (demo_playing 1) \<and> buffer_duration (demo_playing 1) < tick_offset (demo_playing 1) (1 / 5))
   \<and> getTicksAtTime (p_clock (demo_playing 1)) (1 / 5) = 6
   \<and> started_at (last (p_activeSources (p_tick (demo_playing 1) (1 / 5)))) = Some (1 / 5, 6 / 5)
   \<and> stop_times (last (p_activeSources (p_tick (demo_playing 1) (1 / 5)))) = [2 / 5]"
proof -
  have f: "getValueAtTime (frequency (p_clock (demo_playing 1))) (1 / 5) \<noteq> 0"
    by (simp add: demo_playing_frequency)
  have r: "p_playbackRate (demo_playing 1) \<noteq> 0"
    by (simp add: demo_playing_fields)
  have c: "\<not> (\<not> loop (demo_playing 1) \<and> buffer_duration (demo_playing 1) < tick_offset (demo_playing 1) (1 / 5))"
    by (simp add: demo_playing_offset demo_playing_fields)
  have v: "getTicksAtTime (p_clock (demo_playing 1)) (1 / 5) = 6"
    by (simp add: demo_playing_ticks)
  from tick_grain_schedule [OF f r c]
  have a: "started_at (last (p_activeSources (p_tick (demo_playing 1) (1 / 5))))
             = Some (1 / 5, p_grainSize (demo_playing 1) * getTicksAtTime (p_clock (demo_playing 1)) (1 / 5))"
    and b: "stop_times (last (p_activeSources (p_tick (demo_playing 1) (1 / 5))))
             = [1 / 5 + p_grainSize (demo_playing 1) / p_playbackRate (demo_playing 1)]"
    by blast+
  from a have a': "started_at (last (p_activeSources (p_tick (demo_playing 1) (1 / 5)))) = Some (1 / 5, 6 / 5)"
    by (simp add: v demo_playing_fields)
  from b have b': "stop_times (last (p_activeSources (p_tick (demo_playing 1) (1 / 5)))) = [2 / 5]"
    by (simp add: demo_playing_fields)
  from f r c v a' b' show ?thesis by blast
qed

text \<open>
  C4. A grain spawned with overlap \<open>O\<close> has fade-in 0 when the offset the tick computed
  is strictly below \<open>O\<close> and fade-in \<open>O\<close> otherwise; its fade-out is \<open>O\<close>.
\<close>

theorem tick_grain_fades:
  assumes "getValueAtTime (frequency (p_clock s)) t \<noteq> 0"
    and "\<not> (\<not> loop s \<and> buffer_duration s < tick_offset s t)"
  shows "fadeIn (last (p_activeSources (p_tick s t)))
           = (if tick_offset s t < p_overlap s then 0 else p_overlap s)
         \<and> fadeOut (last (p_activeSources (p_tick s t))) = p_overlap s"
  by (simp add: p_tick_spawns [OF assms(2)] source_stop_def source_start_def new_source_def)

theorem tick_grain_fades_witness:
  "getValueAtTime (frequency (p_clock (demo_playing 0))) 0 \<noteq> 0
   \<and> \<not> (\<not> loop (demo_playing 0) \<and> buffer_duration (demo_playing 0) < tick_offset (demo_playing 0) 0)
   \<and> tick_offset (demo_playing 0) 0 = 0
   \<and> fadeIn (last (p_activeSources (p_tick (demo_playing 0) 0))) = 0
   \<and> fadeOut (last (p_activeSources (p_tick (demo_playing 0) 0))) = 1 / 10
   \<and> getValueAtTime (frequency (p_clock (demo_playing 0))) (1 / 5) \<noteq> 0
   \<and> \<not> (\<not> loop (demo_playing 0) \<and> buffer_duration (demo_playing 0) < tick_offset (demo_playing 0) (1 / 5))
   \<and> tick_offset (demo_playing 0) (1 / 5) = 1 / 5
   \<and> fadeIn (last (p_activeSources (p_tick (demo_playing 0) (1 / 5)))) = 1 / 10
   \<and> fadeOut (last (p_activeSources (p_tick (demo_playing 0) (1 / 5)))) = 1 / 10"
proof -
  have f0: "getValueAtTime (frequency (p_clock (demo_playing 0))) 0 \<noteq> 0"
    by (simp add: demo_playing_frequency)
  have c0: "\<not> (\<not> loop (demo_playing 0) \<and> buffer_duration (demo_playing 0) < tick_offset (demo_playing 0) 0)"
    by (simp add: demo_playing_offset demo_playing_fields)
  have v0: "tick_offset (demo_playing 0) 0 = 0"
    by (simp add: demo_playing_offset)
  have f1: "getValueAtTime (frequency (p_clock (demo_playing 0))) (1 / 5) \<noteq> 0"
    by (simp add: demo_playing_frequency)
  have c1: "\<not> (\<not> loop (demo_playing 0) \<and> buffer_duration (demo_playing 0) < tick_offset (demo_playing 0) (1 / 5))"
    by (simp add: demo_playing_offset demo_playing_fields)
  have v1: "tick_offset (demo_playing 0) (1 / 5) = 1 / 5"
    by (simp add: demo_playing_offset)
  from tick_grain_fades [OF f0 c0]
  have a0: "fadeIn (last (p_activeSources (p_tick (demo_playing 0) 0))) = 0"
    and b0: "fadeOut (last (p_activeSources (p_tick (demo_playing 0) 0))) = 1 / 10"
    by (simp_all add: v0 demo_playing_fields)
  from tick_grain_fades [OF f1 c1]
  have a1: "fadeIn (last (p_activeSources (p_tick (demo_playing 0) (1 / 5)))) = 1 / 10"
    and b1: "fadeOut (last (p_activeSources (p_tick (demo_playing 0) (1 / 5)))) = 1 / 10"
    by (simp_all add: v1 demo_playing_fields)
  from f0 c0 v0 a0 b0 f1 c1 v1 a1 b1 show ?thesis by blast
qed

section \<open>The stop handler\<close>

text \<open>
  The handler does not empty the active grains: a player with two sounding grains, stopped
  at time 1 and with the handler run, still holds both.
\<close>

theorem onstop_leaves_grains_counterexample:
  "p_activeSources demo_two_grains \<noteq> []
   \<and> p_activeSources (p_onstop (stop demo_two_grains (Some (Number 1))) 1) \<noteq> []
   \<and> map sid (p_activeSources (p_onstop (stop demo_two_grains (Some (Number 1))) 1)) = [0, 1]"
proof -
  have "map sid (p_activeSources (p_onstop (stop demo_two_grains (Some (Number 1))) 1))
          = map sid (p_activeSources demo_two_grains)"
    by (simp add: p_onstop_def source_stop_def stop_activeSources o_def)
  then have a: "map sid (p_activeSources (p_onstop (stop demo_two_grains (Some (Number 1))) 1)) = [0, 1]"
    by (simp only: demo_two_grains_ids)
  then have b: "p_activeSources (p_onstop (stop demo_two_grains (Some (Number 1))) 1) \<noteq> []"
    by auto
  from demo_two_grains_ids have c: "p_activeSources demo_two_grains \<noteq> []"
    by auto
  from a b c show ?thesis by blast
qed

text \<open>
  C5, as amended. When the clock stops at time \<open>t\<close>, the stop handler sets the fade-out
  of every active grain to 0 and calls its stop at \<open>t\<close>, then fires the stopped
  notification once. Right after the handler the active grains are the same objects in
  the same order, changed in nothing but their fade-out and their stop calls, so the set
  is empty then only if it was empty before.
\<close>

theorem onstop_force_stops:
  "map sid (p_activeSources (p_onstop s t)) = map sid (p_activeSources s)
   \<and> map fadeOut (p_activeSources (p_onstop s t)) = replicate (length (p_activeSources s)) 0
   \<and> map stop_times (p_activeSources (p_onstop s t))
        = map (\<lambda>g. stop_times g @ [t]) (p_activeSources s)
   \<and> map last (map stop_times (p_activeSources (p_onstop s t)))
        = replicate (length (p_activeSources s)) t
   \<and> map (\<lambda>g. g\<lparr>fadeOut := 0, stop_times := []\<rparr>) (p_activeSources (p_onstop s t))
        = map (\<lambda>g. g\<lparr>fadeOut := 0, stop_times := []\<rparr>) (p_activeSources s)
   \<and> onstop_calls (p_onstop s t) = Suc (onstop_calls s)
   \<and> (p_onstop s t)\<lparr>p_activeSources := p_activeSources s, onstop_calls := onstop_calls s\<rparr> = s
   \<and> (p_activeSources (p_onstop s t) = []) = (p_activeSources s = [])"
  by (simp add: p_onstop_def source_stop_def o_def map_replicate_const)

theorem onstop_force_stops_witness:
  "map sid (p_activeSources (p_onstop demo_two_grains 1)) = [0, 1]
   \<and> map fadeOut (p_activeSources (p_onstop demo_two_grains 1)) = [0, 0]
   \<and> map last (map stop_times (p_activeSources (p_onstop demo_two_grains 1))) = [1, 1]
   \<and> onstop_calls (p_onstop demo_two_grains 1) = 1"
proof -
  have "length (map sid (p_activeSources demo_two_grains)) = 2"
    by (simp only: demo_two_grains_ids) simp
  then have l: "length (p_activeSources demo_two_grains) = Suc (Suc 0)" by simp
  have c: "onstop_calls demo_two_grains = 0"
    by (simp add: demo_two_grains_def demo_sounding_def demo_playing_eq demo_player_def player_defs Let_def)
  from onstop_force_stops [of demo_two_grains 1]
  have a: "map sid (p_activeSources (p_onstop demo_two_grains 1)) = map sid (p_activeSources demo_two_grains)"
    and b: "map fadeOut (p_activeSources (p_onstop demo_two_grains 1))
              = replicate (length (p_activeSources demo_two_grains)) 0"
    and d: "map last (map stop_times (p_activeSources (p_onstop demo_two_grains 1)))
              = replicate (length (p_activeSources demo_two_grains)) 1"
    and e: "onstop_calls (p_onstop demo_two_grains 1) = Suc (onstop_calls demo_two_grains)"
    by blast+
  from a have a': "map sid (p_activeSources (p_onstop demo_two_grains 1)) = [0, 1]"
    by (simp only: demo_two_grains_ids)
  from b have b': "map fadeOut (p_activeSources (p_onstop demo_two_grains 1)) = [0, 0]"
    by (simp only: l replicate.simps)
  from d have d': "map last (map stop_times (p_activeSources (p_onstop demo_two_grains 1))) = [1, 1]"
    by (simp only: l replicate.simps)
  from e c have e': "onstop_calls (p_onstop demo_two_grains 1) = 1" by simp
  from a' b' d' e' show ?thesis by blast
qed

section \<open>The completion handler\<close>

lemma indexOf_from_absent:
  "x \<notin> sid ` set gs \<Longrightarrow> indexOf_from gs x i = - 1"
  by (induction gs arbitrary: i) auto

lemma indexOf_from_present:
  "x \<in> sid ` set gs \<Longrightarrow> 0 \<le> i \<Longrightarrow> i \<le> indexOf_from gs x i"
proof (induction gs arbitrary: i)
  case Nil
  then show ?case by simp
next
  case (Cons g gs)
  show ?case
  proof (cases "sid g = x")
    case True
    then show ?thesis by simp
  next
    case False
    with Cons.prems have "x \<in> sid ` set gs" by auto
    from Cons.IH [OF this, of "i + 1"] Cons.prems False show ?thesis by simp
  qed
qed

lemma splice1_indexOf_from:
  "distinct (map sid gs) \<Longrightarrow> x \<in> sid ` set gs \<Longrightarrow> 0 \<le> i \<Longrightarrow>
   splice1 gs (indexOf_from gs x i - i) = filter (\<lambda>g. sid g \<noteq> x) gs"
proof (induction gs arbitrary: i)
  case Nil
  then show ?case by simp
next
  case (Cons g gs)
  show ?case
  proof (cases "sid g = x")
    case True
    from Cons.prems have "sid g \<notin> sid ` set gs" by simp
    with True have "\<forall>h \<in> set gs. sid h \<noteq> x" by (metis imageI)
    then have "filter (\<lambda>g. sid g \<noteq> x) gs = gs" by (simp add: filter_id_conv)
    with True show ?thesis by (simp add: splice1_def)
  next
    case False
    with Cons.prems have mem: "x \<in> sid ` set gs" and d: "distinct (map sid gs)" by auto
    from indexOf_from_present [OF mem, of "i + 1"] Cons.prems
    have le: "i + 1 \<le> indexOf_from gs x (i + 1)" by simp
    then have n: "nat (indexOf_from gs x (i + 1) - i) = Suc (nat (indexOf_from gs x (i + 1) - (i + 1)))"
      by simp
    from Cons.IH [OF d mem, of "i + 1"] Cons.prems
    have "splice1 gs (indexOf_from gs x (i + 1) - (i + 1)) = filter (\<lambda>g. sid g \<noteq> x) gs" by simp
    with False n show ?thesis by (simp add: splice1_def)
  qed
qed

lemma onended_absent: "x \<notin> sid ` set (p_activeSources s) \<Longrightarrow> onended s x = s"
  by (simp add: onended_def indexOf_def indexOf_from_absent)

lemma onended_present:
  assumes "distinct (map sid (p_activeSources s))" and "x \<in> sid ` set (p_activeSources s)"
  shows "onended s x = s\<lparr>p_activeSources := filter (\<lambda>g. sid g \<noteq> x) (p_activeSources s)\<rparr>"
proof -
  from indexOf_from_present [OF assms(2), of 0]
  have "indexOf (p_activeSources s) x \<noteq> - 1" by (simp add: indexOf_def)
  moreover from splice1_indexOf_from [OF assms, of 0]
  have "splice1 (p_activeSources s) (indexOf (p_activeSources s) x)
          = filter (\<lambda>g. sid g \<noteq> x) (p_activeSources s)"
    by (simp add: indexOf_def)
  ultimately show ?thesis by (simp add: onended_def)
qed

lemma onended_sources:
  assumes "distinct (map sid (p_activeSources s))"
  shows "p_activeSources (onended s x) = filter (\<lambda>g. sid g \<noteq> x) (p_activeSources s)"
proof (cases "x \<in> sid ` set (p_activeSources s)")
  case True
  with assms show ?thesis by (simp add: onended_present)
next
  case False
  then have "\<forall>g \<in> set (p_activeSources s). sid g \<noteq> x" by auto
  then have "filter (\<lambda>g. sid g \<noteq> x) (p_activeSources s) = p_activeSources s"
    by (simp add: filter_id_conv)
  with False show ?thesis by (simp add: onended_absent)
qed

text \<open>
  C9. For active grains without duplicates, the completion handler of a grain removes
  that grain and keeps the others in their order, touching no other field; run a second
  time for the same grain it changes nothing, and it changes nothing whenever the grain
  is already absent.
\<close>

theorem onended_removes_once:
  assumes "distinct (map sid (p_activeSources s))"
  shows "p_activeSources (onended s x) = filter (\<lambda>g. sid g \<noteq> x) (p_activeSources s)
         \<and> x \<notin> sid ` set (p_activeSources (onended s x))
         \<and> (onended s x)\<lparr>p_activeSources := p_activeSources s\<rparr> = s
         \<and> onended (onended s x) x = onended s x
         \<and> (x \<notin> sid ` set (p_activeSources s) \<longrightarrow> onended s x = s)"
proof -
  have a: "p_activeSources (onended s x) = filter (\<lambda>g. sid g \<noteq> x) (p_activeSources s)"
    by (rule onended_sources [OF assms])
  then have b: "x \<notin> sid ` set (p_activeSources (onended s x))" by auto
  have c: "(onended s x)\<lparr>p_activeSources := p_activeSources s\<rparr> = s"
    by (simp add: onended_def Let_def)
  from b have d: "onended (onended s x) x = onended s x" by (rule onended_absent)
  from a b c d show ?thesis by (simp add: onended_absent)
qed

theorem onended_removes_once_witness:
  "distinct (map sid (p_activeSources demo_two_grains))
   \<and> map sid (p_activeSources demo_two_grains) = [0, 1]
   \<and> map sid (p_activeSources (onended demo_two_grains 0)) = [1]
   \<and> onended (onended demo_two_grains 0) 0 = onended demo_two_grains 0
   \<and> 7 \<notin> sid ` set (p_activeSources demo_two_grains)
   \<and> onended demo_two_grains 7 = demo_two_grains"
proof -
  have d: "distinct (map sid (p_activeSources demo_two_grains))"
    by (simp add: demo_two_grains_ids)
  from onended_removes_once [OF d, of 0]
  have a: "p_activeSources (onended demo_two_grains 0) = filter (\<lambda>g. sid g \<noteq> 0) (p_activeSources demo_two_grains)"
    and b: "onended (onended demo_two_grains 0) 0 = onended demo_two_grains 0"
    by blast+
  have "map sid (filter (\<lambda>g. sid g \<noteq> 0) (p_activeSources demo_two_grains))
        = filter (\<lambda>i. i \<noteq> 0) (map sid (p_activeSources demo_two_grains))"
    by (simp add: filter_map o_def)
  then have "map sid (p_activeSources (onended demo_two_grains 0)) = [1]"
    by (simp add: a demo_two_grains_ids)
  moreover have "sid ` set (p_activeSources demo_two_grains) = set (map sid (p_activeSources demo_two_grains))"
    by simp
  then have n: "7 \<notin> sid ` set (p_activeSources demo_two_grains)"
    by (simp only: demo_two_grains_ids) simp
  moreover from onended_removes_once [OF d, of 7] n
  have "onended demo_two_grains 7 = demo_two_grains" by blast
  ultimately show ?thesis using d b by (simp add: demo_two_grains_ids)
qed

text \<open>
  The active grains of a constructed player are well formed, and the tick, the stop
  handler and the completion handler keep them so: every grain the tick spawns is a new
  object.
\<close>

lemma sources_wf_constructed:
  "GrainPlayer_new options now1 duration1 = Inr s \<Longrightarrow> sources_wf s"
  by (auto simp add: sources_wf_def GrainPlayer_new_def GrainPlayer_fields_def set_overlap_def
      set_playbackRate_def set_grainSize_def assertRange_def toSeconds_def set_loopStart_def
      set_loopEnd_def set_reverse_def Let_def split: if_splits)

lemma sources_wf_tick: "sources_wf s \<Longrightarrow> sources_wf (p_tick s t)"
proof (cases "\<not> loop s \<and> buffer_duration s < tick_offset s t")
  case True
  assume "sources_wf s"
  with True show ?thesis
    by (simp add: p_tick_stops sources_wf_def stop_activeSources stop_next_sid)
next
  case False
  assume "sources_wf s"
  then show ?thesis
    by (auto simp add: p_tick_spawns [OF False] sources_wf_def source_stop_def source_start_def
        new_source_def list_all_iff)
qed

lemma sources_wf_onstop: "sources_wf s \<Longrightarrow> sources_wf (p_onstop s t)"
  by (simp add: sources_wf_def p_onstop_def source_stop_def o_def list_all_iff)

lemma sources_wf_onended: "sources_wf s \<Longrightarrow> sources_wf (onended s x)"
proof -
  assume wf: "sources_wf s"
  then have d: "distinct (map sid (p_activeSources s))" by (simp add: sources_wf_def)
  have "next_sid (onended s x) = next_sid s" by (simp add: onended_def Let_def)
  with wf show ?thesis
    by (simp add: sources_wf_def onended_sources [OF d] distinct_map_filter list_all_iff)
qed

section \<open>Start and restart\<close>

lemma p_start_no_duration:
  "p_start s time offset None =
     s\<lparr>p_clock := Clock_start (p_clock s) (toSeconds s time)
          (toSeconds s (Some (defaultArg offset (Number 0)))
             / (1 / getValueAtTime (frequency (p_clock s)) (toSeconds s time)))\<rparr>"
  by (simp add: p_start_def Let_def truthy_def)

text \<open>
  What the start does: it starts the clock at the resolved time with the tick count
  \<open>offset / grainDuration\<close>, the offset defaulting to 0 and the grain duration being the
  reciprocal of the frequency at the time, and changes nothing else; for a truthy duration
  it then calls the player's stop at \<open>time + duration\<close>, which is what the specification
  describes for every duration but the number 0.
\<close>

lemma p_start_schedules:
  "(duration \<noteq> Some (Number 0) \<longrightarrow>
      p_start s time offset duration = p_start_spec s time offset duration)
   \<and> (truthy duration \<longrightarrow>
        p_start s time offset duration
          = stop (p_start s time offset None) (Some (Number (toSeconds s time + toSeconds s duration))))
   \<and> clock_state (p_clock (p_start s time offset None))
        = (toSeconds s time, started) # clock_state (p_clock s)
   \<and> (p_start s time offset None)\<lparr>p_clock := p_clock s\<rparr> = s"
proof (intro conjI impI)
  assume "duration \<noteq> Some (Number 0)"
  then show "p_start s time offset duration = p_start_spec s time offset duration"
    by (auto simp add: p_start_def p_start_spec_def Let_def toSeconds_def defaultArg_def truthy_def
        split: option.splits TimeValue.splits)
next
  assume "truthy duration"
  then show "p_start s time offset duration
      = stop (p_start s time offset None) (Some (Number (toSeconds s time + toSeconds s duration)))"
    by (simp add: p_start_def Let_def toSeconds_def truthy_def split: option.splits TimeValue.splits)
next
  show "clock_state (p_clock (p_start s time offset None)) = (toSeconds s time, started) # clock_state (p_clock s)"
    by (simp add: p_start_no_duration Clock_start_def)
next
  show "(p_start s time offset None)\<lparr>p_clock := p_clock s\<rparr> = s"
    by (simp add: p_start_no_duration)
qed

text \<open>
  C8. The start defaults the offset to 0, resolves time and offset to seconds, takes the
  grain duration as the reciprocal of the frequency of the clock at the time and starts
  the clock at the time with the tick count \<open>offset / grainDuration\<close>; a supplied duration
  is to schedule a stop at \<open>time + duration\<close>. The source tests the duration for
  truthiness where it tests the offset for \<open>undefined\<close>, so the supplied number 0 is taken
  for a missing duration: started at time 0 with duration 0, the player and its clock stay
  started with no stop anywhere, where the start as specified stops both at 0. A zero
  duration written as a string is truthy and does get its stop.
\<close>

theorem start_zero_duration_no_stop:
  "p_start demo_started (Some (Number 0)) None (Some (Number 0))
     = p_start demo_started (Some (Number 0)) None None
   \<and> clock_state (p_clock (p_start demo_started (Some (Number 0)) None (Some (Number 0)))) = [(0, started)]
   \<and> p_state (p_start demo_started (Some (Number 0)) None (Some (Number 0))) = [(0, started)]
   \<and> clock_state (p_clock (p_start_spec demo_started (Some (Number 0)) None (Some (Number 0)))) = [(0, stopped)]
   \<and> p_state (p_start_spec demo_started (Some (Number 0)) None (Some (Number 0))) = [(0, stopped)]
   \<and> p_start demo_started (Some (Number 0)) None (Some (Number 0))
       \<noteq> p_start_spec demo_started (Some (Number 0)) None (Some (Number 0))
   \<and> p_start demo_started (Some (Number 0)) None (Some (Notation 0))
       = p_start_spec demo_started (Some (Number 0)) None (Some (Notation 0))
   \<and> p_state (start demo_player (Some (Number 0)) None (Some (Number 0))) = [(0, started)]
   \<and> clock_state (p_clock (start demo_player (Some (Number 0)) None (Some (Number 0)))) = [(0, started)]"
proof -
  have a: "clock_state (p_clock (p_start demo_started (Some (Number 0)) None (Some (Number 0)))) = [(0, started)]"
    "p_state (p_start demo_started (Some (Number 0)) None (Some (Number 0))) = [(0, started)]"
    by (simp_all add: demo_started_def demo_player_def player_defs Let_def)
  have b: "clock_state (p_clock (p_start_spec demo_started (Some (Number 0)) None (Some (Number 0)))) = [(0, stopped)]"
    "p_state (p_start_spec demo_started (Some (Number 0)) None (Some (Number 0))) = [(0, stopped)]"
    by (simp_all add: p_start_spec_def demo_started_def demo_player_def player_defs Let_def)
  from a(2) b(2) have c: "p_start demo_started (Some (Number 0)) None (Some (Number 0))
       \<noteq> p_start_spec demo_started (Some (Number 0)) None (Some (Number 0))"
    by auto
  have d: "p_start demo_started (Some (Number 0)) None (Some (Number 0))
     = p_start demo_started (Some (Number 0)) None None"
    by (simp add: p_start_def truthy_def Let_def)
  have e: "p_start demo_started (Some (Number 0)) None (Some (Notation 0))
       = p_start_spec demo_started (Some (Number 0)) None (Some (Notation 0))"
    by (simp add: p_start_def p_start_spec_def truthy_def toSeconds_def defaultArg_def Let_def)
  have g: "p_state (start demo_player (Some (Number 0)) None (Some (Number 0))) = [(0, started)]"
    "clock_state (p_clock (start demo_player (Some (Number 0)) None (Some (Number 0)))) = [(0, started)]"
    by (simp_all add: demo_player_def player_defs Let_def)
  from a b c d e g show ?thesis by blast
qed




end
